theory Spec2Isabelle
  imports Main
begin

section \<open>JavaScript values as the gateway sees them\<close>

text \<open>
  Every value the gateway handles is JSON-shaped: the parsed request body, the object
  the moderation service resolves with, the parsed downstream body and the payloads that
  \<^verbatim>\<open>createResponse\<close> serialises.  An object is an association list in own-property
  order with distinct keys.  The JavaScript value \<^verbatim>\<open>undefined\<close> is \<open>None\<close> of
  \<open>json option\<close>.  A \<open>string\<close> is a sequence of code units, each \<open>char\<close> standing for
  one code unit below 256; strings with other code units are outside the model.  The
  code only measures, cuts, joins and compares strings, and a character of a prompt is a
  code unit, as \<^verbatim>\<open>length\<close> and \<^verbatim>\<open>substring\<close> count them.  Numbers are restricted to
  the safe integers (magnitude below \<open>2 ^ 53\<close>), which print in full decimal: the code
  never computes with a parsed number, it only tests and prints one.
\<close>

datatype json =
    JNull
  | JBool bool
  | JNum int
  | JStr string
  | JArr "json list"
  | JObj "(string \<times> json) list"

text \<open>What a \<^verbatim>\<open>throw\<close> carries: an Error object with its \<^verbatim>\<open>message\<close>.\<close>

datatype js_error =
    TypeError string
  | SyntaxError string
  | ServiceError string

fun message :: "js_error \<Rightarrow> string" where
  "message (TypeError m) = m"
| "message (SyntaxError m) = m"
| "message (ServiceError m) = m"

text \<open>Truthiness (\<^verbatim>\<open>!v\<close>, \<^verbatim>\<open>v || d\<close>, \<^verbatim>\<open>v && d\<close>).\<close>

fun truthy :: "json option \<Rightarrow> bool" where
  "truthy None = False"
| "truthy (Some JNull) = False"
| "truthy (Some (JBool b)) = b"
| "truthy (Some (JNum n)) = (n \<noteq> 0)"
| "truthy (Some (JStr s)) = (s \<noteq> [])"
| "truthy (Some (JArr xs)) = True"
| "truthy (Some (JObj kvs)) = True"

fun typeof :: "json option \<Rightarrow> string" where
  "typeof None = ''undefined''"
| "typeof (Some JNull) = ''object''"
| "typeof (Some (JBool b)) = ''boolean''"
| "typeof (Some (JNum n)) = ''number''"
| "typeof (Some (JStr s)) = ''string''"
| "typeof (Some (JArr xs)) = ''object''"
| "typeof (Some (JObj kvs)) = ''object''"

text \<open>
  Reading a data property \<^verbatim>\<open>v.k\<close>.  Reading from \<^verbatim>\<open>null\<close> or \<^verbatim>\<open>undefined\<close> throws;
  a missing property is \<^verbatim>\<open>undefined\<close>.  Strings and arrays have \<^verbatim>\<open>length\<close>; their
  methods (\<^verbatim>\<open>map\<close>, \<^verbatim>\<open>substring\<close>) are not data and are modelled where they are called.
\<close>

fun js_prop :: "json \<Rightarrow> string \<Rightarrow> js_error + json option" where
  "js_prop JNull k =
     Inl (TypeError (''Cannot read properties of null (reading '' @
                     [CHR 0x27] @ k @ [CHR 0x27] @ '')''))"
| "js_prop (JObj kvs) k = Inr (map_of kvs k)"
| "js_prop (JStr s) k = Inr (if k = ''length'' then Some (JNum (int (length s))) else None)"
| "js_prop (JArr xs) k = Inr (if k = ''length'' then Some (JNum (int (length xs))) else None)"
| "js_prop (JBool b) k = Inr None"
| "js_prop (JNum n) k = Inr None"

fun js_prop_opt :: "json option \<Rightarrow> string \<Rightarrow> js_error + json option" where
  "js_prop_opt None k =
     Inl (TypeError (''Cannot read properties of undefined (reading '' @
                     [CHR 0x27] @ k @ [CHR 0x27] @ '')''))"
| "js_prop_opt (Some v) k = js_prop v k"

text \<open>Optional chaining \<^verbatim>\<open>v?.k\<close>: \<^verbatim>\<open>undefined\<close> when \<open>v\<close> is nullish.\<close>

fun js_prop_chain :: "json option \<Rightarrow> string \<Rightarrow> js_error + json option" where
  "js_prop_chain None k = Inr None"
| "js_prop_chain (Some JNull) k = Inr None"
| "js_prop_chain (Some v) k = js_prop v k"

subsection \<open>Printing\<close>

fun join :: "string \<Rightarrow> string list \<Rightarrow> string" where
  "join sep [] = []"
| "join sep [s] = s"
| "join sep (s # t # ss) = s @ sep @ join sep (t # ss)"

definition digit_char :: "nat \<Rightarrow> char" where
  "digit_char d = ''0123456789abcdef'' ! d"

fun nat_digits :: "nat \<Rightarrow> string" where
  "nat_digits n =
     (if n < 10 then [digit_char n] else nat_digits (n div 10) @ [digit_char (n mod 10)])"

declare nat_digits.simps [simp del]

definition Number_toString :: "int \<Rightarrow> string" where
  "Number_toString n = (if n < 0 then ''-'' @ nat_digits (nat (- n)) else nat_digits (nat n))"

text \<open>
  String conversion, as a template literal \<^verbatim>\<open>`${v}`\<close> does it.  An array prints its
  elements joined by commas, with \<^verbatim>\<open>null\<close> elements printed as nothing.  An object
  prints through \<^verbatim>\<open>Object.prototype.toString\<close>, unless it has an own \<^verbatim>\<open>toString\<close>
  property: that one is JSON data, so it cannot be called, \<^verbatim>\<open>valueOf\<close> gives back the
  object, and the conversion throws.
\<close>

fun js_String :: "json \<Rightarrow> js_error + string"
  and js_join_elements :: "json list \<Rightarrow> js_error + string" where
  "js_String JNull = Inr ''null''"
| "js_String (JBool b) = Inr (if b then ''true'' else ''false'')"
| "js_String (JNum n) = Inr (Number_toString n)"
| "js_String (JStr s) = Inr s"
| "js_String (JArr xs) = js_join_elements xs"
| "js_String (JObj kvs) =
     (if map_of kvs ''toString'' = None then Inr ''[object Object]''
      else Inl (TypeError ''Cannot convert object to primitive value''))"
| "js_join_elements [] = Inr []"
| "js_join_elements (x # xs) =
     (case (if x = JNull then Inr [] else js_String x) of
        Inl e \<Rightarrow> Inl e
      | Inr s \<Rightarrow>
          (if xs = [] then Inr s
           else (case js_join_elements xs of
                   Inl e \<Rightarrow> Inl e
                 | Inr t \<Rightarrow> Inr (s @ '','' @ t))))"

fun js_String_opt :: "json option \<Rightarrow> js_error + string" where
  "js_String_opt None = Inr ''undefined''"
| "js_String_opt (Some v) = js_String v"

text \<open>\<^verbatim>\<open>JSON.stringify\<close> without indentation, on JSON-shaped values.\<close>

definition quote_char :: "char \<Rightarrow> string" where
  "quote_char c =
     (if c = CHR 0x08 then [CHR 0x5C, CHR ''b'']
      else if c = CHR 0x09 then [CHR 0x5C, CHR ''t'']
      else if c = CHR 0x0A then [CHR 0x5C, CHR ''n'']
      else if c = CHR 0x0C then [CHR 0x5C, CHR ''f'']
      else if c = CHR 0x0D then [CHR 0x5C, CHR ''r'']
      else if c = CHR 0x22 then [CHR 0x5C, CHR 0x22]
      else if c = CHR 0x5C then [CHR 0x5C, CHR 0x5C]
      else if (of_char c :: nat) < 32
        then [CHR 0x5C, CHR ''u'', CHR ''0'', CHR ''0'',
              digit_char (of_char c div 16), digit_char (of_char c mod 16)]
      else [c])"

definition quote :: "string \<Rightarrow> string" where
  "quote s = [CHR 0x22] @ concat (map quote_char s) @ [CHR 0x22]"

fun JSON_stringify :: "json \<Rightarrow> string" where
  "JSON_stringify JNull = ''null''"
| "JSON_stringify (JBool b) = (if b then ''true'' else ''false'')"
| "JSON_stringify (JNum n) = Number_toString n"
| "JSON_stringify (JStr s) = quote s"
| "JSON_stringify (JArr xs) = ''['' @ join '','' (map JSON_stringify xs) @ '']''"
| "JSON_stringify (JObj kvs) =
     ''{'' @ join '','' (map (\<lambda>(k, v). quote k @ '':'' @ JSON_stringify v) kvs) @ ''}''"

section \<open>Requests, responses and the outside world\<close>

text \<open>
  The inbound event, with the fields the handler reads: \<^verbatim>\<open>event.httpMethod\<close>,
  \<^verbatim>\<open>event.path\<close>, \<^verbatim>\<open>event.rawPath\<close>, \<^verbatim>\<open>event.requestContext?.http?.method\<close>,
  \<^verbatim>\<open>event.headers\<close> and \<^verbatim>\<open>event.body\<close>.  A field that is absent is \<open>None\<close>.
\<close>

record event =
  httpMethod :: "string option"
  path :: "string option"
  rawPath :: "string option"
  requestContext_http_method :: "string option"
  headers :: "(string \<times> string) list option"
  body :: "string option"

record response =
  statusCode :: int
  resp_headers :: "(string \<times> string) list"
  resp_body :: string

text \<open>The outbound call that \<^verbatim>\<open>fetch\<close> receives, and what it resolves with.\<close>

record fetch_request =
  req_url :: string
  req_method :: string
  req_headers :: "(string \<times> string) list"
  req_body :: "string option"

record fetch_response =
  status :: int
  text_result :: "js_error + string"

text \<open>
  What the runtime and the two collaborators provide.  \<open>JSON_parse\<close> is the built-in
  parser (\<open>Inl\<close> is the SyntaxError it throws).  \<open>bedrock_send n t\<close> is the outcome of the
  guardrail call made for the text \<open>t\<close> after \<open>n\<close> earlier client calls of the same
  invocation: the object the service resolves with, or the fault the call rejects with.
  The same text may be answered differently by different calls.  \<open>fetch\<close> is the
  downstream service.  \<open>now_iso\<close> is \<^verbatim>\<open>new Date().toISOString()\<close>.  Console logging
  is not modelled.
\<close>

record world =
  JSON_parse :: "string \<Rightarrow> js_error + json"
  bedrock_send :: "nat \<Rightarrow> json option \<Rightarrow> js_error + json"
  fetch :: "fetch_request \<Rightarrow> js_error + fetch_response"
  now_iso :: string

text \<open>The calls a request makes to the two clients, in the order they are issued.\<close>

datatype call =
    CallModeration "json option"
  | CallForward event

type_synonym trace = "call list"

fun is_forward :: "call \<Rightarrow> bool" where
  "is_forward (CallForward ev) = True"
| "is_forward (CallModeration p) = False"

subsection \<open>\<^verbatim>\<open>MODERATION_CONFIG\<close>\<close>

definition guardrailId :: string where
  "guardrailId = ''your-guardrail-id''"

definition guardrailVersion :: string where
  "guardrailVersion = ''DRAFT''"

definition videoServiceUrl :: string where
  "videoServiceUrl = ''https://your-video-service.com/generate''"

definition messages_blocked :: string where
  "messages_blocked = ''Content violates our community guidelines''"

definition messages_error :: string where
  "messages_error = ''Unable to validate content at this time''"

definition enableLogging :: bool where
  "enableLogging = True"

section \<open>The gateway\<close>

subsection \<open>\<^verbatim>\<open>createResponse\<close>\<close>

definition createResponse :: "int \<Rightarrow> json \<Rightarrow> response" where
  "createResponse code payload =
     \<lparr> statusCode = code,
       resp_headers =
         [(''Content-Type'', ''application/json''),
          (''Access-Control-Allow-Origin'', ''*''),
          (''Access-Control-Allow-Headers'', ''Content-Type''),
          (''Access-Control-Allow-Methods'', ''POST, GET, OPTIONS'')],
       resp_body = JSON_stringify payload \<rparr>"

subsection \<open>\<^verbatim>\<open>forwardToVideoService\<close>\<close>

text \<open>\<^verbatim>\<open>event.headers?.authorization\<close>\<close>

definition authorization :: "event \<Rightarrow> string option" where
  "authorization ev = (case headers ev of None \<Rightarrow> None | Some hs \<Rightarrow> map_of hs ''authorization'')"

definition forward_request :: "event \<Rightarrow> fetch_request" where
  "forward_request ev =
     \<lparr> req_url = videoServiceUrl,
       req_method = ''POST'',
       req_headers =
         (''Content-Type'', ''application/json'') #
         (case authorization ev of
            None \<Rightarrow> []
          | Some a \<Rightarrow> if a = [] then [] else [(''Authorization'', a)]),
       req_body = body ev \<rparr>"

definition video_unavailable :: response where
  "video_unavailable =
     createResponse 502
       (JObj [(''success'', JBool False),
              (''message'', JStr ''Video service unavailable''),
              (''error'', JStr ''Failed to connect to video generation service'')])"

definition forwardToVideoService :: "world \<Rightarrow> event \<Rightarrow> trace \<Rightarrow> response \<times> trace" where
  "forwardToVideoService w originalEvent tr =
     (let tr' = tr @ [CallForward originalEvent] in
      case fetch w (forward_request originalEvent) of
        Inl e \<Rightarrow> (video_unavailable, tr')
      | Inr r \<Rightarrow>
          (case text_result r of
             Inl e \<Rightarrow> (video_unavailable, tr')
           | Inr responseData \<Rightarrow>
               (let parsedData =
                      (case JSON_parse w responseData of
                         Inr v \<Rightarrow> v
                       | Inl e \<Rightarrow> JObj [(''message'', JStr responseData)])
                in (createResponse (status r) parsedData, tr'))))"

subsection \<open>\<^verbatim>\<open>validatePrompt\<close>\<close>

record verdict =
  allowed :: bool
  reason :: string
  details :: "json option"
  error :: "string option"

text \<open>
  The callback of \<^verbatim>\<open>assessments.map\<close>:
  \<^verbatim>\<open>`${assessment.type}: ${assessment.guardrailCoverage?.type || 'unknown'}`\<close>
\<close>

definition describe_assessment :: "json \<Rightarrow> js_error + string" where
  "describe_assessment assessment =
     (case js_prop assessment ''type'' of
        Inl e \<Rightarrow> Inl e
      | Inr t \<Rightarrow>
          (case js_String_opt t of
             Inl e \<Rightarrow> Inl e
           | Inr ts \<Rightarrow>
               (case js_prop assessment ''guardrailCoverage'' of
                  Inl e \<Rightarrow> Inl e
                | Inr gc \<Rightarrow>
                    (case js_prop_chain gc ''type'' of
                       Inl e \<Rightarrow> Inl e
                     | Inr c \<Rightarrow>
                         (case js_String_opt (if truthy c then c else Some (JStr ''unknown'')) of
                            Inl e \<Rightarrow> Inl e
                          | Inr cs \<Rightarrow> Inr (ts @ '': '' @ cs))))))"

text \<open>\<^verbatim>\<open>Array.prototype.map\<close> with a callback that may throw: the first throw ends it.\<close>

fun map_throwing :: "('a \<Rightarrow> js_error + 'b) \<Rightarrow> 'a list \<Rightarrow> js_error + 'b list" where
  "map_throwing f [] = Inr []"
| "map_throwing f (x # xs) =
     (case f x of
        Inl e \<Rightarrow> Inl e
      | Inr y \<Rightarrow> (case map_throwing f xs of Inl e \<Rightarrow> Inl e | Inr ys \<Rightarrow> Inr (y # ys)))"

text \<open>
  \<^verbatim>\<open>response.assessments?.map(...).join(', ')\<close>: \<^verbatim>\<open>undefined\<close> when the list is
  nullish, a TypeError when it is anything but an array.
\<close>

fun assessment_reasons :: "json option \<Rightarrow> js_error + string option" where
  "assessment_reasons None = Inr None"
| "assessment_reasons (Some JNull) = Inr None"
| "assessment_reasons (Some (JArr xs)) =
     (case map_throwing describe_assessment xs of
        Inl e \<Rightarrow> Inl e
      | Inr ds \<Rightarrow> Inr (Some (join '', '' ds)))"
| "assessment_reasons (Some v) =
     Inl (TypeError ''response.assessments?.map is not a function'')"

text \<open>The body of the \<^verbatim>\<open>try\<close> block, after \<open>n\<close> earlier client calls.\<close>

definition validatePrompt_try :: "world \<Rightarrow> nat \<Rightarrow> json option \<Rightarrow> js_error + verdict" where
  "validatePrompt_try w n prompt =
     (case bedrock_send w n prompt of
        Inl e \<Rightarrow> Inl e
      | Inr response \<Rightarrow>
          (case js_prop response ''action'' of
             Inl e \<Rightarrow> Inl e
           | Inr action \<Rightarrow>
               if action = Some (JStr ''GUARDRAIL_INTERVENED'') then
                 (case js_prop response ''assessments'' of
                    Inl e \<Rightarrow> Inl e
                  | Inr assessments \<Rightarrow>
                      (case assessment_reasons assessments of
                         Inl e \<Rightarrow> Inl e
                       | Inr joined \<Rightarrow>
                           Inr \<lparr> allowed = False,
                                 reason =
                                   (case joined of
                                      None \<Rightarrow> ''Policy violation''
                                    | Some s \<Rightarrow> if s = [] then ''Policy violation'' else s),
                                 details = assessments,
                                 error = None \<rparr>))
               else
                 Inr \<lparr> allowed = True, reason = ''Content approved'',
                       details = None, error = None \<rparr>))"

definition validatePrompt :: "world \<Rightarrow> json option \<Rightarrow> trace \<Rightarrow> verdict \<times> trace" where
  "validatePrompt w prompt tr =
     (let tr' = tr @ [CallModeration prompt] in
      case validatePrompt_try w (length tr) prompt of
        Inr v \<Rightarrow> (v, tr')
      | Inl e \<Rightarrow>
          (\<lparr> allowed = False, reason = ''Validation service unavailable'',
             details = None, error = Some (message e) \<rparr>, tr'))"

subsection \<open>\<^verbatim>\<open>handleValidation\<close>\<close>

text \<open>\<^verbatim>\<open>s || d\<close> for an optional string \<open>s\<close>: the default replaces an absent or empty one.\<close>

definition or_default :: "string option \<Rightarrow> string \<Rightarrow> string" where
  "or_default v d = (case v of None \<Rightarrow> d | Some s \<Rightarrow> if s = [] then d else s)"

text \<open>\<^verbatim>\<open>JSON.parse(event.body || '{}')\<close>\<close>

definition parse_body :: "world \<Rightarrow> event \<Rightarrow> js_error + json" where
  "parse_body w ev = JSON_parse w (or_default (body ev) ''{}'')"

definition validation_error :: response where
  "validation_error =
     createResponse 500
       (JObj [(''success'', JBool False),
              (''allowed'', JBool False),
              (''message'', JStr messages_error),
              (''error'', JStr ''Internal server error'')])"

definition blocked_response :: "verdict \<Rightarrow> response" where
  "blocked_response validation =
     createResponse 422
       (JObj [(''success'', JBool False),
              (''allowed'', JBool False),
              (''message'', JStr messages_blocked),
              (''details'',
                 JObj [(''reason'', JStr (reason validation)),
                       (''assessments'',
                          (case details validation of
                             None \<Rightarrow> JArr []
                           | Some d \<Rightarrow> if truthy (Some d) then d else JArr []))])])"

definition handleValidation :: "world \<Rightarrow> event \<Rightarrow> trace \<Rightarrow> response \<times> trace" where
  "handleValidation w ev tr =
     (case parse_body w ev of
        Inl e \<Rightarrow> (validation_error, tr)
      | Inr b \<Rightarrow>
          (case js_prop b ''prompt'' of
             Inl e \<Rightarrow> (validation_error, tr)
           | Inr prompt \<Rightarrow>
               if \<not> truthy prompt \<or> typeof prompt \<noteq> ''string'' then
                 (createResponse 400
                    (JObj [(''success'', JBool False),
                           (''message'',
                              JStr ''Invalid request: prompt is required and must be a string'')]),
                  tr)
               else
                 (case js_prop_opt prompt ''length'' of
                    Inl e \<Rightarrow> (validation_error, tr)
                  | Inr len \<Rightarrow>
                      if len = Some (JNum 0) then
                        (createResponse 400
                           (JObj [(''success'', JBool False),
                                  (''message'', JStr ''Invalid request: prompt cannot be empty'')]),
                         tr)
                      else
                        (case validatePrompt w prompt tr of
                           (validation, tr') \<Rightarrow>
                             if allowed validation then forwardToVideoService w ev tr'
                             else (blocked_response validation, tr')))))"

subsection \<open>\<^verbatim>\<open>handleBatchValidation\<close>\<close>

record batch_result =
  r_index :: nat
  r_prompt :: string
  r_allowed :: bool
  r_reason :: string

text \<open>
  \<^verbatim>\<open>prompt.substring(0, 100) + (prompt.length > 100 ? '...' : '')\<close>: only a string has
  \<^verbatim>\<open>substring\<close>.
\<close>

fun preview :: "json \<Rightarrow> js_error + string" where
  "preview (JStr s) = Inr (take 100 s @ (if length s > 100 then ''...'' else []))"
| "preview JNull =
     Inl (TypeError (''Cannot read properties of null (reading '' @
                     [CHR 0x27] @ ''substring'' @ [CHR 0x27] @ '')''))"
| "preview v = Inl (TypeError ''prompt.substring is not a function'')"

text \<open>The \<^verbatim>\<open>async (prompt, index)\<close> callback: the promise it returns settles with \<open>Inl\<close>
  (rejected) or \<open>Inr\<close> (fulfilled).\<close>

definition batch_callback ::
  "world \<Rightarrow> json \<Rightarrow> nat \<Rightarrow> trace \<Rightarrow> (js_error + batch_result) \<times> trace" where
  "batch_callback w prompt index tr =
     (case validatePrompt w (Some prompt) tr of
        (validation, tr') \<Rightarrow>
          ((case preview prompt of
              Inl e \<Rightarrow> Inl e
            | Inr p \<Rightarrow>
                Inr \<lparr> r_index = index, r_prompt = p,
                      r_allowed = allowed validation, r_reason = reason validation \<rparr>),
           tr'))"

text \<open>\<^verbatim>\<open>prompts.map(async (prompt, index) => ...)\<close>, from index \<open>i\<close> on.\<close>

fun batch_map ::
  "world \<Rightarrow> nat \<Rightarrow> json list \<Rightarrow> trace \<Rightarrow> (js_error + batch_result) list \<times> trace" where
  "batch_map w i [] tr = ([], tr)"
| "batch_map w i (p # ps) tr =
     (case batch_callback w p i tr of
        (r, tr') \<Rightarrow> (case batch_map w (Suc i) ps tr' of (rs, tr'') \<Rightarrow> (r # rs, tr'')))"

text \<open>\<^verbatim>\<open>Promise.all\<close>: fulfilled with all the values in input order, or rejected.\<close>

fun Promise_all :: "(js_error + 'a) list \<Rightarrow> js_error + 'a list" where
  "Promise_all [] = Inr []"
| "Promise_all (Inl e # ps) = Inl e"
| "Promise_all (Inr x # ps) = (case Promise_all ps of Inl e \<Rightarrow> Inl e | Inr xs \<Rightarrow> Inr (x # xs))"

definition result_json :: "batch_result \<Rightarrow> json" where
  "result_json r =
     JObj [(''index'', JNum (int (r_index r))),
           (''prompt'', JStr (r_prompt r)),
           (''allowed'', JBool (r_allowed r)),
           (''reason'', JStr (r_reason r))]"

definition batch_payload :: "json list \<Rightarrow> batch_result list \<Rightarrow> json" where
  "batch_payload prompts results =
     JObj [(''success'', JBool True),
           (''results'', JArr (map result_json results)),
           (''summary'',
              JObj [(''total'', JNum (int (length prompts))),
                    (''allowed'', JNum (int (length (filter (\<lambda>r. r_allowed r) results)))),
                    (''blocked'', JNum (int (length (filter (\<lambda>r. \<not> r_allowed r) results))))])]"

definition batch_failed :: response where
  "batch_failed =
     createResponse 500
       (JObj [(''success'', JBool False), (''message'', JStr ''Batch validation failed'')])"

definition handleBatchValidation :: "world \<Rightarrow> event \<Rightarrow> trace \<Rightarrow> response \<times> trace" where
  "handleBatchValidation w ev tr =
     (case parse_body w ev of
        Inl e \<Rightarrow> (batch_failed, tr)
      | Inr b \<Rightarrow>
          (case js_prop b ''prompts'' of
             Inl e \<Rightarrow> (batch_failed, tr)
           | Inr (Some (JArr prompts)) \<Rightarrow>
               (case batch_map w 0 prompts tr of
                  (settled, tr') \<Rightarrow>
                    (case Promise_all settled of
                       Inl e \<Rightarrow> (batch_failed, tr')
                     | Inr results \<Rightarrow> (createResponse 200 (batch_payload prompts results), tr')))
           | Inr other \<Rightarrow>
               (createResponse 400
                  (JObj [(''success'', JBool False),
                         (''message'', JStr ''Invalid request: prompts must be an array'')]),
                tr)))"

subsection \<open>\<^verbatim>\<open>handleHealth\<close>, \<^verbatim>\<open>handleConfig\<close>\<close>

definition handleHealth :: "world \<Rightarrow> response" where
  "handleHealth w =
     createResponse 200
       (JObj [(''status'', JStr ''healthy''),
              (''timestamp'', JStr (now_iso w)),
              (''config'',
                 JObj [(''guardrailId'', JStr guardrailId),
                       (''version'', JStr guardrailVersion)])])"

definition handleConfig :: response where
  "handleConfig =
     createResponse 200
       (JObj [(''guardrailId'', JStr guardrailId),
              (''guardrailVersion'', JStr guardrailVersion),
              (''loggingEnabled'', JBool enableLogging),
              (''messages'',
                 JObj [(''blocked'', JStr messages_blocked),
                       (''error'', JStr messages_error)])])"

subsection \<open>\<^verbatim>\<open>exports.handler\<close>\<close>

definition not_found :: response where
  "not_found =
     createResponse 404
       (JObj [(''success'', JBool False),
              (''message'', JStr ''Not found''),
              (''availableEndpoints'',
                 JArr [JStr ''POST /validate - Validate and forward to video service'',
                       JStr ''POST /validate-batch - Batch validation (returns results only)'',
                       JStr ''GET /health - Service health check'',
                       JStr ''GET /config - View current configuration''])])"

text \<open>
  Each invocation starts with no client call made.  The four route handlers contain their
  own faults and always return a response, so the handler's own \<^verbatim>\<open>catch\<close> (a 500
  response) is never entered and has no branch here.
\<close>

definition handler :: "world \<Rightarrow> event \<Rightarrow> response \<times> trace" where
  "handler w ev =
     (if httpMethod ev = Some ''OPTIONS'' then
        (createResponse 200 (JObj [(''message'', JStr ''OK'')]), [])
      else
        (let path = or_default (path ev) (or_default (rawPath ev) ''/'');
             method = or_default (httpMethod ev)
                        (or_default (requestContext_http_method ev) ''GET'')
         in if method = ''POST'' \<and> path = ''/validate'' then handleValidation w ev []
            else if method = ''POST'' \<and> path = ''/validate-batch'' then
              handleBatchValidation w ev []
            else if method = ''GET'' \<and> path = ''/health'' then (handleHealth w, [])
            else if method = ''GET'' \<and> path = ''/config'' then (handleConfig, [])
            else (not_found, [])))"

section \<open>Example requests and collaborators\<close>

text \<open>
  Concrete worlds for evaluating the gateway.  \<open>demo_parse\<close> is the parser restricted to
  the request and response bodies used below; the three guardrail behaviours are a
  service that always intervenes, one that never does, and one whose call fails.
\<close>

definition demo_parse :: "string \<Rightarrow> js_error + json" where
  \<open>demo_parse s =
     (if s = ''{}'' then Inr (JObj [])
      else if s = ''{"prompt":""}'' then Inr (JObj [(''prompt'', JStr [])])
      else if s = ''{"prompt":"a sunset"}'' then Inr (JObj [(''prompt'', JStr ''a sunset'')])
      else if s = ''{"prompts":["a sunset","a storm"]}''
        then Inr (JObj [(''prompts'', JArr [JStr ''a sunset'', JStr ''a storm''])])
      else if s = ''{"prompts":["a sunset",5]}''
        then Inr (JObj [(''prompts'', JArr [JStr ''a sunset'', JNum 5])])
      else if s = ''{"prompts":["a slow pan over a mountain lake at sunrise with mist rising from the water and birds crossing the pale sky","a storm"]}''
        then Inr (JObj [(''prompts'',
               JArr [JStr ''a slow pan over a mountain lake at sunrise with mist rising from the water and birds crossing the pale sky'',
                     JStr ''a storm''])])
      else if s = ''{"video":"ready"}'' then Inr (JObj [(''video'', JStr ''ready'')])
      else Inl (SyntaxError ''Unexpected token''))\<close>

definition send_intervened :: "nat \<Rightarrow> json option \<Rightarrow> js_error + json" where
  "send_intervened n t =
     Inr (JObj [(''action'', JStr ''GUARDRAIL_INTERVENED''),
                (''assessments'', JArr [JObj [(''type'', JStr ''CONTENT_POLICY'')]])])"

definition send_none :: "nat \<Rightarrow> json option \<Rightarrow> js_error + json" where
  "send_none n t = Inr (JObj [(''action'', JStr ''NONE'')])"

definition send_fault :: "nat \<Rightarrow> json option \<Rightarrow> js_error + json" where
  "send_fault n t = Inl (ServiceError ''ThrottlingException'')"

text \<open>The first call of the invocation is blocked, every later one approved.\<close>

definition send_first_blocked :: "nat \<Rightarrow> json option \<Rightarrow> js_error + json" where
  "send_first_blocked n t =
     (if n = 0 then Inr (JObj [(''action'', JStr ''GUARDRAIL_INTERVENED'')])
      else Inr (JObj [(''action'', JStr ''NONE'')]))"

definition demo_world :: "(nat \<Rightarrow> json option \<Rightarrow> js_error + json) \<Rightarrow> world" where
  \<open>demo_world send =
     \<lparr> JSON_parse = demo_parse,
       bedrock_send = send,
       fetch = (\<lambda>r. Inr \<lparr> status = 201, text_result = Inr ''{"video":"ready"}'' \<rparr>),
       now_iso = ''2024-01-01T00:00:00.000Z'' \<rparr>\<close>

definition demo_event :: "string \<Rightarrow> string \<Rightarrow> string \<Rightarrow> event" where
  "demo_event m p b =
     \<lparr> httpMethod = Some m, path = Some p, rawPath = None,
       requestContext_http_method = None, headers = None, body = Some b \<rparr>"

lemmas demo_defs =
  demo_parse_def demo_world_def demo_event_def send_intervened_def send_none_def
  send_fault_def send_first_blocked_def parse_body_def or_default_def

lemmas eval_defs =
  handleBatchValidation_def handleValidation_def validatePrompt_def validatePrompt_try_def
  batch_callback_def batch_payload_def result_json_def batch_failed_def createResponse_def
  describe_assessment_def blocked_response_def messages_blocked_def
  quote_def quote_char_def Number_toString_def nat_digits.simps digit_char_def Let_def

section \<open>Basic facts about the clients\<close>

lemma createResponse_sel [simp]:
  "statusCode (createResponse c p) = c"
  "resp_body (createResponse c p) = JSON_stringify p"
  "resp_headers (createResponse c p) =
     [(''Content-Type'', ''application/json''),
      (''Access-Control-Allow-Origin'', ''*''),
      (''Access-Control-Allow-Headers'', ''Content-Type''),
      (''Access-Control-Allow-Methods'', ''POST, GET, OPTIONS'')]"
  by (simp_all add: createResponse_def)

lemma validatePrompt_trace: "snd (validatePrompt w p tr) = tr @ [CallModeration p]"
  by (simp add: validatePrompt_def Let_def split: sum.splits)

lemma forward_trace: "snd (forwardToVideoService w ev tr) = tr @ [CallForward ev]"
  by (simp add: forwardToVideoService_def Let_def split: sum.splits)

lemma forward_is_envelope: "\<exists>c p. fst (forwardToVideoService w ev tr) = createResponse c p"
  by (auto simp: forwardToVideoService_def video_unavailable_def Let_def split: sum.splits)

lemma validatePrompt_fault:
  assumes "bedrock_send w (length tr) p = Inl e"
  shows "fst (validatePrompt w p tr) =
           \<lparr> allowed = False, reason = ''Validation service unavailable'',
             details = None, error = Some (message e) \<rparr>"
  using assms by (simp add: validatePrompt_def validatePrompt_try_def Let_def)

lemma validatePrompt_intervened:
  assumes "bedrock_send w (length tr) p = Inr r"
      and "js_prop r ''action'' = Inr (Some (JStr ''GUARDRAIL_INTERVENED''))"
  shows "\<not> allowed (fst (validatePrompt w p tr))"
  using assms
  by (simp add: validatePrompt_def validatePrompt_try_def Let_def split: sum.splits)

lemma validatePrompt_approved:
  assumes "bedrock_send w (length tr) p = Inr r"
      and "js_prop r ''action'' = Inr a"
      and "a \<noteq> Some (JStr ''GUARDRAIL_INTERVENED'')"
  shows "fst (validatePrompt w p tr) =
           \<lparr> allowed = True, reason = ''Content approved'', details = None, error = None \<rparr>"
  using assms by (simp add: validatePrompt_def validatePrompt_try_def Let_def)

text \<open>An intervention without a usable assessment list gets the default reason.\<close>

lemma validatePrompt_default_reason:
  assumes "bedrock_send w (length tr) p = Inr r"
      and "js_prop r ''action'' = Inr (Some (JStr ''GUARDRAIL_INTERVENED''))"
      and "js_prop r ''assessments'' = Inr a"
      and "a = None \<or> a = Some JNull \<or> a = Some (JArr [])"
  shows "reason (fst (validatePrompt w p tr)) = ''Policy violation''"
  using assms by (auto simp: validatePrompt_def validatePrompt_try_def Let_def)

text \<open>What the pipeline does once the shape check has passed.\<close>

lemma handleValidation_string:
  assumes "parse_body w ev = Inr b"
      and "js_prop b ''prompt'' = Inr (Some (JStr s))"
      and "s \<noteq> []"
  shows "handleValidation w ev tr =
           (if allowed (fst (validatePrompt w (Some (JStr s)) tr))
            then forwardToVideoService w ev (tr @ [CallModeration (Some (JStr s))])
            else (blocked_response (fst (validatePrompt w (Some (JStr s)) tr)),
                  tr @ [CallModeration (Some (JStr s))]))"
proof -
  obtain v tr' where vt: "validatePrompt w (Some (JStr s)) tr = (v, tr')"
    by (cases "validatePrompt w (Some (JStr s)) tr")
  with validatePrompt_trace [of w "Some (JStr s)" tr]
  have "tr' = tr @ [CallModeration (Some (JStr s))]" by simp
  with vt assms show ?thesis
    by (simp add: handleValidation_def)
qed

section \<open>Basic facts about batch validation\<close>

lemma batch_callback_string:
  "fst (batch_callback w (JStr s) i tr) =
     Inr \<lparr> r_index = i,
           r_prompt = take 100 s @ (if length s > 100 then ''...'' else []),
           r_allowed = allowed (fst (validatePrompt w (Some (JStr s)) tr)),
           r_reason = reason (fst (validatePrompt w (Some (JStr s)) tr)) \<rparr>"
  by (simp add: batch_callback_def case_prod_beta)

lemma batch_callback_trace:
  "snd (batch_callback w p i tr) = tr @ [CallModeration (Some p)]"
  by (simp add: batch_callback_def case_prod_beta validatePrompt_trace)

lemma batch_map_Cons:
  "batch_map w i (p # ps) tr =
     (fst (batch_callback w p i tr) #
        fst (batch_map w (Suc i) ps (tr @ [CallModeration (Some p)])),
      snd (batch_map w (Suc i) ps (tr @ [CallModeration (Some p)])))"
  by (simp add: case_prod_beta batch_callback_trace)

text \<open>Every element gets its moderation call, in input order, and nothing is forwarded.\<close>

lemma batch_map_trace:
  "snd (batch_map w i ps tr) = tr @ map (\<lambda>p. CallModeration (Some p)) ps"
  by (induction ps arbitrary: i tr) (simp_all add: batch_map_Cons del: batch_map.simps(2))

lemma preview_non_string:
  "typeof (Some x) \<noteq> ''string'' \<Longrightarrow> \<exists>e. preview x = Inl e"
  by (cases x) simp_all

lemma batch_callback_non_string:
  "typeof (Some x) \<noteq> ''string'' \<Longrightarrow> \<exists>e. fst (batch_callback w x i tr) = Inl e"
  using preview_non_string [of x]
  by (auto simp: batch_callback_def case_prod_beta)

lemma Promise_all_rejects:
  "\<exists>e. Inl e \<in> set ps \<Longrightarrow> \<exists>e. Promise_all ps = Inl e"
  by (induction ps rule: Promise_all.induct) (auto split: sum.splits)

lemma Promise_all_fulfilled: "Promise_all (map Inr xs) = Inr xs"
  by (induction xs) simp_all

lemma batch_map_non_string:
  "\<exists>x \<in> set xs. typeof (Some x) \<noteq> ''string'' \<Longrightarrow>
   \<exists>e. Inl e \<in> set (fst (batch_map w i xs tr))"
proof (induction xs arbitrary: i tr)
  case Nil
  then show ?case by simp
next
  case (Cons x xs)
  show ?case
  proof (cases "typeof (Some x) \<noteq> ''string''")
    case True
    with batch_callback_non_string [of x w i tr] show ?thesis
      by (auto simp: batch_map_Cons simp del: batch_map.simps(2))
  next
    case False
    with Cons.prems have "\<exists>x \<in> set xs. typeof (Some x) \<noteq> ''string''" by auto
    from Cons.IH [OF this, of "Suc i" "tr @ [CallModeration (Some x)]"] show ?thesis
      by (auto simp: batch_map_Cons simp del: batch_map.simps(2))
  qed
qed

text \<open>On strings every promise is fulfilled; result \<open>k\<close> carries index \<open>i + k\<close> and the
  preview of prompt \<open>k\<close>.\<close>

lemma batch_map_strings:
  "\<exists>rs. fst (batch_map w i (map JStr ss) tr) = map Inr rs \<and> length rs = length ss \<and>
        (\<forall>k < length ss.
           r_index (rs ! k) = i + k \<and>
           r_prompt (rs ! k) =
             take 100 (ss ! k) @ (if length (ss ! k) > 100 then ''...'' else []))"
proof (induction ss arbitrary: i tr)
  case Nil
  show ?case by simp
next
  case (Cons s ss)
  define tr1 where "tr1 = tr @ [CallModeration (Some (JStr s))]"
  from Cons.IH [of "Suc i" tr1] obtain rs where
    rs: "fst (batch_map w (Suc i) (map JStr ss) tr1) = map Inr rs" "length rs = length ss"
        "\<And>k. k < length ss \<Longrightarrow> r_index (rs ! k) = Suc i + k \<and>
           r_prompt (rs ! k) =
             take 100 (ss ! k) @ (if length (ss ! k) > 100 then ''...'' else [])"
    by blast
  from batch_callback_string [of w s i tr] obtain r0 where
    r0: "fst (batch_callback w (JStr s) i tr) = Inr r0" "r_index r0 = i"
        "r_prompt r0 = take 100 s @ (if length s > 100 then ''...'' else [])"
    by auto
  have "fst (batch_map w i (map JStr (s # ss)) tr) = map Inr (r0 # rs)"
    using rs(1) r0(1) by (simp add: batch_map_Cons tr1_def del: batch_map.simps(2))
  moreover have "length (r0 # rs) = length (s # ss)"
    using rs(2) by simp
  moreover have "\<forall>k < length (s # ss).
           r_index ((r0 # rs) ! k) = i + k \<and>
           r_prompt ((r0 # rs) ! k) =
             take 100 ((s # ss) ! k) @ (if length ((s # ss) ! k) > 100 then ''...'' else [])"
  proof (intro allI impI)
    fix k assume "k < length (s # ss)"
    then show "r_index ((r0 # rs) ! k) = i + k \<and>
           r_prompt ((r0 # rs) ! k) =
             take 100 ((s # ss) ! k) @ (if length ((s # ss) ! k) > 100 then ''...'' else [])"
      using r0(2,3) rs(3) by (cases k) auto
  qed
  ultimately show ?case by blast
qed


lemma result_json_prompt:
  "js_prop (result_json r) ''prompt'' = Inr (Some (JStr (r_prompt r)))"
  by (simp add: result_json_def)

lemma handleBatchValidation_strings:
  assumes "parse_body w ev = Inr b"
      and "js_prop b ''prompts'' = Inr (Some (JArr (map JStr ss)))"
      and "fst (batch_map w 0 (map JStr ss) tr) = map Inr rs"
  shows "fst (handleBatchValidation w ev tr) =
           createResponse 200 (batch_payload (map JStr ss) rs)"
  using assms
  by (simp add: handleBatchValidation_def case_prod_beta Promise_all_fulfilled)

section \<open>Basic facts about the router\<close>

lemma handleValidation_is_envelope:
  "\<exists>c p. fst (handleValidation w ev tr) = createResponse c p"
  using forward_is_envelope [of w ev "tr @ [CallModeration x]" for x]
  by (auto simp: handleValidation_def validation_error_def blocked_response_def
        case_prod_beta validatePrompt_trace
      split: sum.splits)

lemma handleBatchValidation_is_envelope:
  "\<exists>c p. fst (handleBatchValidation w ev tr) = createResponse c p"
  by (auto simp: handleBatchValidation_def batch_failed_def case_prod_beta
      split: sum.splits option.splits json.splits)

lemma handler_is_envelope: "\<exists>c p. fst (handler w ev) = createResponse c p"
  using handleValidation_is_envelope [of w ev "[]"]
        handleBatchValidation_is_envelope [of w ev "[]"]
  by (auto simp: handler_def Let_def handleHealth_def handleConfig_def not_found_def)

text \<open>The preflight branch, taken when \<^verbatim>\<open>event.httpMethod\<close> itself is \<^verbatim>\<open>OPTIONS\<close>,
  whatever the path and the body.\<close>

lemma preflight_by_httpMethod:
  assumes "httpMethod ev = Some ''OPTIONS''"
  shows \<open>statusCode (fst (handler w ev)) = 200 \<and>
         resp_body (fst (handler w ev)) = ''{"message":"OK"}'' \<and>
         snd (handler w ev) = []\<close>
  using assms by (simp add: handler_def quote_def quote_char_def)

section \<open>The single-prompt pipeline\<close>

text \<open>
  Claim C1.  When the request carries a non-empty string prompt and the moderation
  service answers that prompt with \<^verbatim>\<open>GUARDRAIL_INTERVENED\<close>, \<^verbatim>\<open>handleValidation\<close>
  returns status 422, and the only client call it has made is the moderation call: the
  forwarding client is not invoked.
\<close>

theorem blocked_returns_422_without_forwarding:
  assumes "parse_body w ev = Inr b"
      and "js_prop b ''prompt'' = Inr (Some (JStr s))"
      and "s \<noteq> []"
      and "bedrock_send w (length tr) (Some (JStr s)) = Inr r"
      and "js_prop r ''action'' = Inr (Some (JStr ''GUARDRAIL_INTERVENED''))"
  shows "statusCode (fst (handleValidation w ev tr)) = 422 \<and>
         snd (handleValidation w ev tr) = tr @ [CallModeration (Some (JStr s))] \<and>
         filter is_forward (snd (handleValidation w ev tr)) = filter is_forward tr"
  using validatePrompt_intervened [OF assms(4,5)]
  by (simp add: handleValidation_string [OF assms(1,2,3)] blocked_response_def)

text \<open>
  Claim C1, at a concrete request: the prompt \<^verbatim>\<open>a sunset\<close> against a service that
  intervenes.
\<close>

theorem blocked_returns_422_without_forwarding_witness:
  \<open>statusCode (fst (handleValidation (demo_world send_intervened)
       (demo_event ''POST'' ''/validate'' ''{"prompt":"a sunset"}'') [])) = 422 \<and>
   snd (handleValidation (demo_world send_intervened)
       (demo_event ''POST'' ''/validate'' ''{"prompt":"a sunset"}'') []) =
     [CallModeration (Some (JStr ''a sunset''))]\<close>
  using blocked_returns_422_without_forwarding
    [of "demo_world send_intervened"
        \<open>demo_event ''POST'' ''/validate'' ''{"prompt":"a sunset"}''\<close>
        "JObj [(''prompt'', JStr ''a sunset'')]" "''a sunset''" "[]"
        "JObj [(''action'', JStr ''GUARDRAIL_INTERVENED''),
               (''assessments'', JArr [JObj [(''type'', JStr ''CONTENT_POLICY'')]])]"]
  by (simp add: demo_defs)

text \<open>
  Claim C2.  When the guardrail call fails, \<^verbatim>\<open>validatePrompt\<close> returns a verdict with
  \<^verbatim>\<open>allowed = false\<close> and the reason \<^verbatim>\<open>Validation service unavailable\<close>; for a
  non-empty string prompt \<^verbatim>\<open>handleValidation\<close> then answers with the 422 envelope that
  carries this reason, after the moderation call alone.
\<close>

theorem moderation_fault_fails_closed:
  assumes "bedrock_send w (length tr) p = Inl e"
  shows "allowed (fst (validatePrompt w p tr)) = False \<and>
         reason (fst (validatePrompt w p tr)) = ''Validation service unavailable'' \<and>
         (\<forall>s. p = Some (JStr s) \<and> s \<noteq> [] \<and>
               parse_body w ev = Inr b \<and> js_prop b ''prompt'' = Inr p \<longrightarrow>
              fst (handleValidation w ev tr) =
                createResponse 422
                  (JObj [(''success'', JBool False),
                         (''allowed'', JBool False),
                         (''message'', JStr messages_blocked),
                         (''details'',
                            JObj [(''reason'', JStr ''Validation service unavailable''),
                                  (''assessments'', JArr [])])]) \<and>
              snd (handleValidation w ev tr) = tr @ [CallModeration p])"
  using validatePrompt_fault [OF assms]
  by (auto simp: handleValidation_string blocked_response_def)

text \<open>Claim C2, at a concrete request: the guardrail call is throttled.\<close>

theorem moderation_fault_fails_closed_witness:
  \<open>bedrock_send (demo_world send_fault) 0 (Some (JStr ''a sunset'')) =
     Inl (ServiceError ''ThrottlingException'') \<and>
   allowed (fst (validatePrompt (demo_world send_fault) (Some (JStr ''a sunset'')) [])) = False \<and>
   reason (fst (validatePrompt (demo_world send_fault) (Some (JStr ''a sunset'')) [])) =
     ''Validation service unavailable'' \<and>
   statusCode (fst (handleValidation (demo_world send_fault)
       (demo_event ''POST'' ''/validate'' ''{"prompt":"a sunset"}'') [])) = 422 \<and>
   snd (handleValidation (demo_world send_fault)
       (demo_event ''POST'' ''/validate'' ''{"prompt":"a sunset"}'') []) =
     [CallModeration (Some (JStr ''a sunset''))]\<close>
  using moderation_fault_fails_closed
    [of "demo_world send_fault" "[]" "Some (JStr ''a sunset'')"
        "ServiceError ''ThrottlingException''"
        \<open>demo_event ''POST'' ''/validate'' ''{"prompt":"a sunset"}''\<close>
        "JObj [(''prompt'', JStr ''a sunset'')]"]
  by (simp add: demo_defs)

text \<open>
  Claim C3.  When the request carries a non-empty string prompt and the moderation
  service answers it without intervening, \<^verbatim>\<open>handleValidation\<close> returns exactly what
  \<^verbatim>\<open>forwardToVideoService\<close> returns for the event, and the forwarding client has been
  invoked once, after the moderation call.
\<close>

theorem approved_prompt_is_forwarded_once:
  assumes "parse_body w ev = Inr b"
      and "js_prop b ''prompt'' = Inr (Some (JStr s))"
      and "s \<noteq> []"
      and "bedrock_send w (length tr) (Some (JStr s)) = Inr r"
      and "js_prop r ''action'' = Inr a"
      and "a \<noteq> Some (JStr ''GUARDRAIL_INTERVENED'')"
  shows "handleValidation w ev tr =
           forwardToVideoService w ev (tr @ [CallModeration (Some (JStr s))]) \<and>
         snd (handleValidation w ev tr) =
           tr @ [CallModeration (Some (JStr s)), CallForward ev] \<and>
         length (filter is_forward (snd (handleValidation w ev tr))) =
           Suc (length (filter is_forward tr))"
  using validatePrompt_approved [OF assms(4,5,6)]
  by (simp add: handleValidation_string [OF assms(1,2,3)] forward_trace)

text \<open>
  Claim C3, at a concrete request: the downstream service answers 201, and 201 is what
  the gateway returns.
\<close>

theorem approved_prompt_is_forwarded_once_witness:
  \<open>handleValidation (demo_world send_none)
       (demo_event ''POST'' ''/validate'' ''{"prompt":"a sunset"}'') [] =
     forwardToVideoService (demo_world send_none)
       (demo_event ''POST'' ''/validate'' ''{"prompt":"a sunset"}'')
       [CallModeration (Some (JStr ''a sunset''))] \<and>
   snd (handleValidation (demo_world send_none)
       (demo_event ''POST'' ''/validate'' ''{"prompt":"a sunset"}'') []) =
     [CallModeration (Some (JStr ''a sunset'')),
      CallForward (demo_event ''POST'' ''/validate'' ''{"prompt":"a sunset"}'')] \<and>
   statusCode (fst (handleValidation (demo_world send_none)
       (demo_event ''POST'' ''/validate'' ''{"prompt":"a sunset"}'') [])) = 201\<close>
  using approved_prompt_is_forwarded_once
    [of "demo_world send_none"
        \<open>demo_event ''POST'' ''/validate'' ''{"prompt":"a sunset"}''\<close>
        "JObj [(''prompt'', JStr ''a sunset'')]" "''a sunset''" "[]"
        "JObj [(''action'', JStr ''NONE'')]" "Some (JStr ''NONE'')"]
  by (simp add: demo_defs forwardToVideoService_def)

text \<open>
  Claim C4, as stated, fails.  For the body \<^verbatim>\<open>{}\<close> the message is
  \<^verbatim>\<open>Invalid request: prompt is required and must be a string\<close>, not the shorter text of
  the claim; for the body \<^verbatim>\<open>{"prompt":""}\<close> the message is that same one, not
  \<^verbatim>\<open>prompt cannot be empty\<close>, because \<^verbatim>\<open>!prompt\<close> already holds of the empty string
  and the \<^verbatim>\<open>prompt.length === 0\<close> branch is never reached.
\<close>

theorem shape_check_messages_counterexample:
  \<open>resp_body (fst (handleValidation (demo_world send_none)
       (demo_event ''POST'' ''/validate'' ''{}'') [])) =
     ''{"success":false,"message":"Invalid request: prompt is required and must be a string"}'' \<and>
   resp_body (fst (handleValidation (demo_world send_none)
       (demo_event ''POST'' ''/validate'' ''{}'') [])) \<noteq>
     JSON_stringify (JObj [(''success'', JBool False),
                           (''message'', JStr ''prompt is required and must be a string'')]) \<and>
   resp_body (fst (handleValidation (demo_world send_none)
       (demo_event ''POST'' ''/validate'' ''{"prompt":""}'') [])) =
     ''{"success":false,"message":"Invalid request: prompt is required and must be a string"}'' \<and>
   resp_body (fst (handleValidation (demo_world send_none)
       (demo_event ''POST'' ''/validate'' ''{"prompt":""}'') [])) \<noteq>
     JSON_stringify (JObj [(''success'', JBool False),
                           (''message'', JStr ''prompt cannot be empty'')])\<close>
  by (simp add: handleValidation_def demo_defs quote_def quote_char_def)

text \<open>
  Claim C4, amended.  When the body parses to a JSON value other than \<^verbatim>\<open>null\<close> and its
  prompt is missing, is not a string, or is the empty string, \<^verbatim>\<open>handleValidation\<close>
  returns status 400 and makes no client call; when the prompt is missing or not a string
  the message is \<^verbatim>\<open>Invalid request: prompt is required and must be a string\<close>.
\<close>

theorem malformed_prompt_is_rejected_unmoderated:
  assumes "parse_body w ev = Inr b"
      and "js_prop b ''prompt'' = Inr prompt"
      and "typeof prompt \<noteq> ''string'' \<or> prompt = Some (JStr [])"
  shows "statusCode (fst (handleValidation w ev tr)) = 400 \<and>
         snd (handleValidation w ev tr) = tr \<and>
         (typeof prompt \<noteq> ''string'' \<longrightarrow>
            fst (handleValidation w ev tr) =
              createResponse 400
                (JObj [(''success'', JBool False),
                       (''message'',
                          JStr ''Invalid request: prompt is required and must be a string'')]))"
  using assms by (auto simp: handleValidation_def)

text \<open>Claim C4, amended, at the bodies \<^verbatim>\<open>{"prompt":""}\<close> and \<^verbatim>\<open>{}\<close>.\<close>

theorem malformed_prompt_is_rejected_unmoderated_witness:
  \<open>statusCode (fst (handleValidation (demo_world send_none)
       (demo_event ''POST'' ''/validate'' ''{"prompt":""}'') [])) = 400 \<and>
   snd (handleValidation (demo_world send_none)
       (demo_event ''POST'' ''/validate'' ''{"prompt":""}'') []) = [] \<and>
   fst (handleValidation (demo_world send_none) (demo_event ''POST'' ''/validate'' ''{}'') []) =
     createResponse 400
       (JObj [(''success'', JBool False),
              (''message'', JStr ''Invalid request: prompt is required and must be a string'')])\<close>
  using malformed_prompt_is_rejected_unmoderated
    [of "demo_world send_none" \<open>demo_event ''POST'' ''/validate'' ''{"prompt":""}''\<close>
        "JObj [(''prompt'', JStr [])]" "Some (JStr [])" "[]"]
    malformed_prompt_is_rejected_unmoderated
    [of "demo_world send_none" \<open>demo_event ''POST'' ''/validate'' ''{}''\<close>
        "JObj []" None "[]"]
  by (simp add: demo_defs)

text \<open>
  Claim C9.  A verdict of \<^verbatim>\<open>validatePrompt\<close> with \<^verbatim>\<open>allowed = false\<close> has a non-empty
  reason, whatever the moderation service resolved or rejected with.
\<close>

theorem blocked_verdict_has_reason:
  assumes "\<not> allowed (fst (validatePrompt w p tr))"
  shows "reason (fst (validatePrompt w p tr)) \<noteq> []"
  using assms
  by (auto simp: validatePrompt_def validatePrompt_try_def Let_def
           split: sum.splits option.splits if_splits)

text \<open>Claim C9, at a concrete intervention with one assessment.\<close>

theorem blocked_verdict_has_reason_witness:
  "\<not> allowed (fst (validatePrompt (demo_world send_intervened) (Some (JStr ''a sunset'')) [])) \<and>
   reason (fst (validatePrompt (demo_world send_intervened) (Some (JStr ''a sunset'')) [])) \<noteq> []"
  using blocked_verdict_has_reason
    [of "demo_world send_intervened" "Some (JStr ''a sunset'')" "[]"]
  by (simp add: demo_defs validatePrompt_def validatePrompt_try_def describe_assessment_def)

section \<open>Batch validation\<close>



text \<open>
  Claim C7.  In the response to a batch of strings, \<^verbatim>\<open>results[i].prompt\<close> is the
  first 100 code units of prompt \<open>i\<close> followed by \<^verbatim>\<open>...\<close> when the prompt is longer than
  100 code units, and the prompt itself when it has at most 100.  A character is a code
  unit, as \<^verbatim>\<open>substring\<close> and \<^verbatim>\<open>length\<close> count them; the model's strings hold code
  units below 256.
\<close>

theorem batch_preview_truncates_at_100:
  assumes "parse_body w ev = Inr b"
      and "js_prop b ''prompts'' = Inr (Some (JArr (map JStr ss)))"
  shows "\<exists>results summary.
           fst (handleBatchValidation w ev tr) =
             createResponse 200
               (JObj [(''success'', JBool True),
                      (''results'', JArr results),
                      (''summary'', summary)]) \<and>
           resp_body (fst (handleBatchValidation w ev tr)) =
             JSON_stringify
               (JObj [(''success'', JBool True),
                      (''results'', JArr results),
                      (''summary'', summary)]) \<and>
           length results = length ss \<and>
           (\<forall>i < length ss.
              (length (ss ! i) > 100 \<longrightarrow>
                 js_prop (results ! i) ''prompt'' =
                   Inr (Some (JStr (take 100 (ss ! i) @ ''...'')))) \<and>
              (length (ss ! i) \<le> 100 \<longrightarrow>
                 js_prop (results ! i) ''prompt'' = Inr (Some (JStr (ss ! i)))))"
proof -
  from batch_map_strings [of w 0 ss tr] obtain rs where
    rs: "fst (batch_map w 0 (map JStr ss) tr) = map Inr rs" "length rs = length ss"
        "\<forall>k < length ss. r_prompt (rs ! k) =
             take 100 (ss ! k) @ (if length (ss ! k) > 100 then ''...'' else [])"
    by blast
  have resp: "fst (handleBatchValidation w ev tr) =
          createResponse 200 (batch_payload (map JStr ss) rs)"
    using assms rs(1) by (rule handleBatchValidation_strings)
  define summary where
    "summary = JObj [(''total'', JNum (int (length (map JStr ss)))),
                     (''allowed'', JNum (int (length (filter (\<lambda>r. r_allowed r) rs)))),
                     (''blocked'', JNum (int (length (filter (\<lambda>r. \<not> r_allowed r) rs))))]"
  have env: "fst (handleBatchValidation w ev tr) =
               createResponse 200
                 (JObj [(''success'', JBool True),
                        (''results'', JArr (map result_json rs)),
                        (''summary'', summary)])"
    using resp by (simp only: batch_payload_def summary_def)
  have body: "resp_body (fst (handleBatchValidation w ev tr)) =
               JSON_stringify
                 (JObj [(''success'', JBool True),
                        (''results'', JArr (map result_json rs)),
                        (''summary'', summary)])"
    by (simp only: env createResponse_sel)
  have len: "length (map result_json rs) = length ss"
    using rs(2) by simp
  have prompts: "\<forall>i < length ss.
              (length (ss ! i) > 100 \<longrightarrow>
                 js_prop (map result_json rs ! i) ''prompt'' =
                   Inr (Some (JStr (take 100 (ss ! i) @ ''...'')))) \<and>
              (length (ss ! i) \<le> 100 \<longrightarrow>
                 js_prop (map result_json rs ! i) ''prompt'' = Inr (Some (JStr (ss ! i))))"
    using rs(2,3) by (simp add: result_json_prompt)
  from env body len prompts show ?thesis by blast
qed

text \<open>
  Claim C7, at a batch with a prompt of 106 code units and a short one, with the body the
  gateway sends back.
\<close>

theorem batch_preview_truncates_at_100_witness:
  \<open>(\<exists>results summary.
      fst (handleBatchValidation (demo_world send_none)
            (demo_event ''POST'' ''/validate-batch''
               ''{"prompts":["a slow pan over a mountain lake at sunrise with mist rising from the water and birds crossing the pale sky","a storm"]}'') []) =
        createResponse 200
          (JObj [(''success'', JBool True),
                 (''results'', JArr results),
                 (''summary'', summary)]) \<and>
      length results = 2 \<and>
      js_prop (results ! 0) ''prompt'' = Inr (Some (JStr ''a slow pan over a mountain lake at sunrise with mist rising from the water and birds crossing the pa...'')) \<and>
      js_prop (results ! 1) ''prompt'' = Inr (Some (JStr ''a storm''))) \<and>
   resp_body (fst (handleBatchValidation (demo_world send_none)
            (demo_event ''POST'' ''/validate-batch''
               ''{"prompts":["a slow pan over a mountain lake at sunrise with mist rising from the water and birds crossing the pale sky","a storm"]}'') [])) =
     ''{"success":true,"results":[{"index":0,"prompt":"a slow pan over a mountain lake at sunrise with mist rising from the water and birds crossing the pa...","allowed":true,"reason":"Content approved"},{"index":1,"prompt":"a storm","allowed":true,"reason":"Content approved"}],"summary":{"total":2,"allowed":2,"blocked":0}}''\<close>
proof
  show \<open>\<exists>results summary.
      fst (handleBatchValidation (demo_world send_none)
            (demo_event ''POST'' ''/validate-batch''
               ''{"prompts":["a slow pan over a mountain lake at sunrise with mist rising from the water and birds crossing the pale sky","a storm"]}'') []) =
        createResponse 200
          (JObj [(''success'', JBool True),
                 (''results'', JArr results),
                 (''summary'', summary)]) \<and>
      length results = 2 \<and>
      js_prop (results ! 0) ''prompt'' = Inr (Some (JStr ''a slow pan over a mountain lake at sunrise with mist rising from the water and birds crossing the pa...'')) \<and>
      js_prop (results ! 1) ''prompt'' = Inr (Some (JStr ''a storm''))\<close>
    using batch_preview_truncates_at_100
      [of "demo_world send_none"
          \<open>demo_event ''POST'' ''/validate-batch''
               ''{"prompts":["a slow pan over a mountain lake at sunrise with mist rising from the water and birds crossing the pale sky","a storm"]}''\<close>
          "JObj [(''prompts'', JArr [JStr ''a slow pan over a mountain lake at sunrise with mist rising from the water and birds crossing the pale sky'', JStr ''a storm''])]"
          "[''a slow pan over a mountain lake at sunrise with mist rising from the water and birds crossing the pale sky'', ''a storm'']" "[]"]
    by (auto simp: demo_defs numeral_2_eq_2 All_less_Suc)
  show \<open>resp_body (fst (handleBatchValidation (demo_world send_none)
            (demo_event ''POST'' ''/validate-batch''
               ''{"prompts":["a slow pan over a mountain lake at sunrise with mist rising from the water and birds crossing the pale sky","a storm"]}'') [])) =
     ''{"success":true,"results":[{"index":0,"prompt":"a slow pan over a mountain lake at sunrise with mist rising from the water and birds crossing the pa...","allowed":true,"reason":"Content approved"},{"index":1,"prompt":"a storm","allowed":true,"reason":"Content approved"}],"summary":{"total":2,"allowed":2,"blocked":0}}''\<close>
    by (simp add: demo_defs eval_defs)
qed

text \<open>
  Claim C10.  When the \<^verbatim>\<open>prompts\<close> array holds an element that is not a string,
  building that element's preview throws, and \<^verbatim>\<open>handleBatchValidation\<close> returns the
  status 500 envelope with the message \<^verbatim>\<open>Batch validation failed\<close>, which carries no
  per-item result.
\<close>

theorem batch_with_non_string_fails_whole:
  assumes "parse_body w ev = Inr b"
      and "js_prop b ''prompts'' = Inr (Some (JArr xs))"
      and "x \<in> set xs"
      and "typeof (Some x) \<noteq> ''string''"
  shows "(\<exists>e. preview x = Inl e) \<and>
         fst (handleBatchValidation w ev tr) =
           createResponse 500
             (JObj [(''success'', JBool False), (''message'', JStr ''Batch validation failed'')])"
proof -
  from assms(3,4) have "\<exists>x \<in> set xs. typeof (Some x) \<noteq> ''string''" by blast
  from Promise_all_rejects [OF batch_map_non_string [OF this, of w 0 tr]]
  obtain e where "Promise_all (fst (batch_map w 0 xs tr)) = Inl e" by blast
  with assms(1,2) have "fst (handleBatchValidation w ev tr) = batch_failed"
    by (simp add: handleBatchValidation_def case_prod_beta)
  with preview_non_string [OF assms(4)] show ?thesis
    by (simp add: batch_failed_def)
qed

text \<open>Claim C10, at a batch whose second element is the number 5.\<close>

theorem batch_with_non_string_fails_whole_witness:
  \<open>(\<exists>e. preview (JNum 5) = Inl e) \<and>
   fst (handleBatchValidation (demo_world send_none)
         (demo_event ''POST'' ''/validate-batch'' ''{"prompts":["a sunset",5]}'') []) =
     createResponse 500
       (JObj [(''success'', JBool False), (''message'', JStr ''Batch validation failed'')]) \<and>
   resp_body (fst (handleBatchValidation (demo_world send_none)
         (demo_event ''POST'' ''/validate-batch'' ''{"prompts":["a sunset",5]}'') [])) =
     ''{"success":false,"message":"Batch validation failed"}''\<close>
  using batch_with_non_string_fails_whole
    [of "demo_world send_none"
        \<open>demo_event ''POST'' ''/validate-batch'' ''{"prompts":["a sunset",5]}''\<close>
        "JObj [(''prompts'', JArr [JStr ''a sunset'', JNum 5])]"
        "[JStr ''a sunset'', JNum 5]" "JNum 5" "[]"]
  by (simp add: demo_defs quote_def quote_char_def)

section \<open>The router and the envelope\<close>

text \<open>
  Claim C6.  Every response of the handler is built by \<^verbatim>\<open>createResponse\<close> and carries
  the same four headers.  The value of \<^verbatim>\<open>Access-Control-Allow-Headers\<close> is
  \<^verbatim>\<open>Content-Type\<close> alone: \<^verbatim>\<open>Authorization\<close> is not in it.
\<close>

theorem every_response_has_the_fixed_headers:
  "(\<exists>c p. fst (handler w ev) = createResponse c p) \<and>
   resp_headers (fst (handler w ev)) =
     [(''Content-Type'', ''application/json''),
      (''Access-Control-Allow-Origin'', ''*''),
      (''Access-Control-Allow-Headers'', ''Content-Type''),
      (''Access-Control-Allow-Methods'', ''POST, GET, OPTIONS'')]"
  using handler_is_envelope [of w ev] by auto

text \<open>
  Claim C8.  An event that carries its method in \<^verbatim>\<open>requestContext.http.method\<close> and has
  no \<^verbatim>\<open>httpMethod\<close> is routed by that method, but the preflight test reads
  \<^verbatim>\<open>event.httpMethod\<close> only: an \<^verbatim>\<open>OPTIONS\<close> request of that shape gets the 404
  response.
\<close>

theorem options_in_requestContext_is_not_found:
  "fst (handler w \<lparr> httpMethod = None, path = None, rawPath = Some ''/validate'',
                    requestContext_http_method = Some ''OPTIONS'',
                    headers = None, body = None \<rparr>) = not_found \<and>
   statusCode not_found = 404"
  by (simp add: handler_def or_default_def not_found_def)

end
